theory Spec2Isabelle
  imports Main
begin

section \<open>Python values and the built-ins the server relies on\<close>

text \<open>
  The server (\<^verbatim>\<open>smithsonian_mcp_server/server.py\<close>) works on parsed JSON: whatever
  \<^verbatim>\<open>response.json()\<close> and the tool-call argument map hold. A JSON object is a Python
  dict, which keeps insertion order and is read with \<^verbatim>\<open>.get\<close>: it is an association
  list, looked up with \<open>map_of\<close>. Numbers are Python ints; non-integral numbers (Python
  floats) are not modelled. A \<open>string\<close> is the UTF-8 encoding of the Python string.
\<close>

datatype json =
    JNull
  | JBool bool
  | JInt int
  | JStr string
  | JList "json list"
  | JDict "(string \<times> json) list"

text \<open>
  Every exception this module can see is a subclass of Python's \<^verbatim>\<open>Exception\<close>:
  \<^verbatim>\<open>ValueError\<close> from \<^verbatim>\<open>get_api_key\<close> and from \<^verbatim>\<open>str\<close> of an int beyond the digit
  limit, \<^verbatim>\<open>AttributeError\<close>, \<^verbatim>\<open>TypeError\<close> and \<^verbatim>\<open>KeyError\<close> from operations on a
  value of the wrong type, and the failures of the HTTP client
  (\<^verbatim>\<open>httpx.HTTPStatusError\<close> from \<^verbatim>\<open>raise_for_status\<close>, \<^verbatim>\<open>httpx.RequestError\<close> for transport
  failures and timeouts, a decoding error from \<^verbatim>\<open>response.json()\<close>). An exception carries
  its message, which is what \<^verbatim>\<open>str(e)\<close> returns.
\<close>

datatype exc_class =
    ValueError | AttributeError | TypeError | KeyError | HTTPStatusError | RequestError
  | JSONDecodeError

datatype py_exception = Exc exc_class string

fun exc_str :: "py_exception \<Rightarrow> string" where
  "exc_str (Exc c msg) = msg"

text \<open>Sequencing of computations that may raise: the first exception ends the computation.\<close>

definition and_then :: "py_exception + 'a \<Rightarrow> ('a \<Rightarrow> py_exception + 'b) \<Rightarrow> py_exception + 'b" where
  "and_then r f = (case r of Inl e \<Rightarrow> Inl e | Inr x \<Rightarrow> f x)"

fun type_name :: "json \<Rightarrow> string" where
  "type_name JNull = ''NoneType''"
| "type_name (JBool b) = ''bool''"
| "type_name (JInt i) = ''int''"
| "type_name (JStr s) = ''str''"
| "type_name (JList xs) = ''list''"
| "type_name (JDict d) = ''dict''"

text \<open>A text in single quotes, as Python's messages and f-strings write it.\<close>

definition quoted :: "string \<Rightarrow> string" where
  "quoted s = [CHR 0x27] @ s @ [CHR 0x27]"

text \<open>\<^verbatim>\<open>isinstance(v, dict)\<close> and \<^verbatim>\<open>isinstance(v, list)\<close>.\<close>

fun is_dict :: "json \<Rightarrow> bool" where
  "is_dict (JDict d) = True"
| "is_dict v = False"

fun is_list :: "json \<Rightarrow> bool" where
  "is_list (JList xs) = True"
| "is_list v = False"

text \<open>Truth value of a Python object, as \<^verbatim>\<open>if v:\<close> and \<^verbatim>\<open>not v\<close> test it.\<close>

fun truthy :: "json \<Rightarrow> bool" where
  "truthy JNull = False"
| "truthy (JBool b) = b"
| "truthy (JInt i) = (i \<noteq> 0)"
| "truthy (JStr s) = (s \<noteq> [])"
| "truthy (JList xs) = (xs \<noteq> [])"
| "truthy (JDict d) = (d \<noteq> [])"

text \<open>
  \<^verbatim>\<open>v.get(key, default)\<close>: only a dict has the method; on any other value the attribute
  lookup raises \<^verbatim>\<open>AttributeError\<close>.
\<close>

definition dict_get :: "(string \<times> json) list \<Rightarrow> string \<Rightarrow> json \<Rightarrow> json" where
  "dict_get d key dflt = (case map_of d key of None \<Rightarrow> dflt | Some v \<Rightarrow> v)"

fun py_get :: "json \<Rightarrow> string \<Rightarrow> json \<Rightarrow> py_exception + json" where
  "py_get (JDict d) key dflt = Inr (dict_get d key dflt)"
| "py_get v key dflt =
     Inl (Exc AttributeError (quoted (type_name v) @ '' object has no attribute '' @ quoted ''get''))"

text \<open>The characters of a Python string: one per code point of the UTF-8 text.\<close>

definition is_continuation :: "char \<Rightarrow> bool" where
  "is_continuation c = (128 \<le> (of_char c :: nat) \<and> (of_char c :: nat) < 192)"

function py_chars :: "string \<Rightarrow> string list" where
  "py_chars [] = []"
| "py_chars (c # cs) = (c # takeWhile is_continuation cs) # py_chars (dropWhile is_continuation cs)"
  by pat_completeness auto
termination
  by (relation "measure length") (auto simp: length_dropWhile_le less_Suc_eq_le)

text \<open>
  \<^verbatim>\<open>for x in v\<close>: a list gives its elements, a string its characters, a dict its keys;
  \<^verbatim>\<open>None\<close>, a bool and an int are not iterable.
\<close>

fun py_iter :: "json \<Rightarrow> py_exception + json list" where
  "py_iter (JList xs) = Inr xs"
| "py_iter (JStr s) = Inr (map JStr (py_chars s))"
| "py_iter (JDict d) = Inr (map (\<lambda>kv. JStr (fst kv)) d)"
| "py_iter v = Inl (Exc TypeError (quoted (type_name v) @ '' object is not iterable''))"

text \<open>The integer value of an int or a bool (\<^verbatim>\<open>bool\<close> is a subclass of \<^verbatim>\<open>int\<close>).\<close>

fun int_value :: "json \<Rightarrow> int option" where
  "int_value (JInt i) = Some i"
| "int_value (JBool b) = Some (if b then 1 else 0)"
| "int_value v = None"

text \<open>\<^verbatim>\<open>v > n\<close> for an int \<open>n\<close>.\<close>

definition py_gt_int :: "json \<Rightarrow> int \<Rightarrow> py_exception + bool" where
  "py_gt_int v n =
     (case int_value v of
        Some i \<Rightarrow> Inr (n < i)
      | None \<Rightarrow> Inl (Exc TypeError
          (quoted ''>'' @ '' not supported between instances of '' @ quoted (type_name v) @
           '' and '' @ quoted ''int'')))"

text \<open>
  \<^verbatim>\<open>min(v, n)\<close> for an int \<open>n\<close>: the built-in returns \<open>n\<close> when \<^verbatim>\<open>n < v\<close> and \<open>v\<close>
  itself otherwise.
\<close>

definition py_min_int :: "json \<Rightarrow> int \<Rightarrow> py_exception + json" where
  "py_min_int v n =
     (case int_value v of
        Some i \<Rightarrow> Inr (if n < i then JInt n else v)
      | None \<Rightarrow> Inl (Exc TypeError
          (quoted ''<'' @ '' not supported between instances of '' @ quoted ''int'' @
           '' and '' @ quoted (type_name v))))"

subsection \<open>The interpreter's text of a value\<close>

text \<open>
  Three things the built-ins do are fixed by the interpreter and its version, not by this
  module, and are taken as given:
  \<^item> \<^verbatim>\<open>str(i)\<close> of an int, which from Python 3.11 on (and in the later releases of 3.7 to
    3.10) raises \<^verbatim>\<open>ValueError\<close> when \<open>i\<close> has more digits than the limit in force;
  \<^item> \<^verbatim>\<open>str(v)\<close> of a list or a dict, which writes the \<^verbatim>\<open>repr\<close> of what it holds and so
    depends on which code points the Unicode tables call printable;
  \<^item> the exception \<^verbatim>\<open>d[:n]\<close> raises on a dict: the slice is an unhashable key up to
    Python 3.11 (\<^verbatim>\<open>TypeError\<close>) and a missing key from 3.12 on (\<^verbatim>\<open>KeyError\<close>).
\<close>

record runtime =
  int_str :: "int \<Rightarrow> py_exception + string"
  container_str :: "json \<Rightarrow> py_exception + string"
  dict_slice_error :: py_exception

text \<open>
  \<^verbatim>\<open>str(v)\<close>, which is what an f-string field \<^verbatim>\<open>{v}\<close> writes: a string is written as
  it is, \<^verbatim>\<open>None\<close> and the bools by name.
\<close>

fun py_str :: "runtime \<Rightarrow> json \<Rightarrow> py_exception + string" where
  "py_str rt (JStr s) = Inr s"
| "py_str rt JNull = Inr ''None''"
| "py_str rt (JBool b) = Inr (if b then ''True'' else ''False'')"
| "py_str rt (JInt i) = int_str rt i"
| "py_str rt (JList xs) = container_str rt (JList xs)"
| "py_str rt (JDict d) = container_str rt (JDict d)"

text \<open>
  \<^verbatim>\<open>v[:n]\<close>: a list and a string are sliced; a dict raises as the interpreter has it;
  the other values are not subscriptable.
\<close>

fun py_slice_to :: "runtime \<Rightarrow> nat \<Rightarrow> json \<Rightarrow> py_exception + json" where
  "py_slice_to rt n (JList xs) = Inr (JList (take n xs))"
| "py_slice_to rt n (JStr s) = Inr (JStr (concat (take n (py_chars s))))"
| "py_slice_to rt n (JDict d) = Inl (dict_slice_error rt)"
| "py_slice_to rt n v =
     Inl (Exc TypeError (quoted (type_name v) @ '' object is not subscriptable''))"

text \<open>\<^verbatim>\<open>sep.join(parts)\<close>.\<close>

fun join :: "string \<Rightarrow> string list \<Rightarrow> string" where
  "join sep [] = []"
| "join sep [x] = x"
| "join sep (x # y # ys) = x @ sep @ join sep (y # ys)"

subsection \<open>An interpreter for the examples\<close>

text \<open>
  The decimal digits of an int, with a minus sign when negative: \<^verbatim>\<open>str(i)\<close> where no
  digit limit is in force (\<^verbatim>\<open>sys.set_int_max_str_digits(0)\<close>).
\<close>

definition digit_char :: "nat \<Rightarrow> char" where
  "digit_char d = char_of (48 + d)"

function str_nat :: "nat \<Rightarrow> string" where
  "str_nat n = (if n < 10 then [digit_char n] else str_nat (n div 10) @ [digit_char (n mod 10)])"
  by pat_completeness auto
termination
  by (relation "measure id") auto

definition str_int :: "int \<Rightarrow> string" where
  "str_int i = (if i < 0 then ''-'' @ str_nat (nat (- i)) else str_nat (nat i))"

text \<open>
  The interpreter the examples run on: no digit limit, the slice of a dict as up to Python
  3.11. No example writes a list or a dict into a text, and this interpreter's answer
  there stands for none of Python's.
\<close>

definition plain_runtime :: runtime where
  "plain_runtime =
     \<lparr>int_str = (\<lambda>i. Inr (str_int i)),
      container_str = (\<lambda>v. Inl (Exc ValueError ''no text for a list or a dict'')),
      dict_slice_error = Exc TypeError (''unhashable type: '' @ quoted ''slice'')\<rparr>"

section \<open>Credential and HTTP adapter\<close>

text \<open>
  What the module reads from outside: the process environment when the module is imported
  (the global \<^verbatim>\<open>DEFAULT_API_KEY\<close> is computed then), the process environment when a tool
  is called, the upstream API and the interpreter. \<open>http_get\<close> stands for one
  \<^verbatim>\<open>client.get(url, params=params)\<close> followed by \<^verbatim>\<open>raise_for_status()\<close> and
  \<^verbatim>\<open>response.json()\<close>: it gives the parsed body, or the exception one of the three raised.
\<close>

record request =
  req_url :: string
  req_params :: "(string \<times> json) list"

record world =
  environ_at_import :: "string \<rightharpoonup> string"
  environ :: "string \<rightharpoonup> string"
  http_get :: "request \<Rightarrow> py_exception + json"
  py_runtime :: runtime

definition SMITHSONIAN_API_BASE :: string where
  "SMITHSONIAN_API_BASE = ''https://api.si.edu/openaccess/api/v1.0''"

text \<open>\<^verbatim>\<open>os.getenv(name, default)\<close>.\<close>

definition getenv :: "(string \<rightharpoonup> string) \<Rightarrow> string \<Rightarrow> string \<Rightarrow> string" where
  "getenv env name dflt = (case env name of None \<Rightarrow> dflt | Some v \<Rightarrow> v)"

definition DEFAULT_API_KEY :: "world \<Rightarrow> string" where
  "DEFAULT_API_KEY w = getenv (environ_at_import w) ''SMITHSONIAN_API_KEY'' []"

definition api_key_required :: string where
  "api_key_required =
     ''SMITHSONIAN_API_KEY environment variable is required. '' @
     ''Get your free API key at https://api.data.gov/signup/''"

definition get_api_key :: "world \<Rightarrow> py_exception + string" where
  "get_api_key w =
     (let api_key = getenv (environ w) ''SMITHSONIAN_API_KEY'' (DEFAULT_API_KEY w)
      in if api_key = [] then Inl (Exc ValueError api_key_required) else Inr api_key)"

text \<open>\<^verbatim>\<open>d[key] = value\<close> on a dict: a new key goes to the end, an old one keeps its place.\<close>

definition dict_set :: "(string \<times> json) list \<Rightarrow> string \<Rightarrow> json \<Rightarrow> (string \<times> json) list" where
  "dict_set d key v =
     (if key \<in> fst ` set d then map (\<lambda>kv. if fst kv = key then (key, v) else kv) d
      else d @ [(key, v)])"

text \<open>
  An adapter returns the requests it has sent, in order, and its outcome. The arguments
  are the values \<^verbatim>\<open>call_tool\<close> passes on, whatever their type. The URL of a request is
  an f-string, written when the request is made.
\<close>

definition search_params :: "string \<Rightarrow> json \<Rightarrow> json \<Rightarrow> json \<Rightarrow> json \<Rightarrow> py_exception + (string \<times> json) list" where
  "search_params api_key query rows start online_media =
     and_then (py_min_int rows 1000) (\<lambda>min_rows.
       let params = [(''api_key'', JStr api_key), (''q'', query), (''rows'', min_rows),
                     (''start'', start)]
       in Inr (if truthy online_media then dict_set params ''online_media_type'' (JStr ''Images'')
               else params))"

definition search_smithsonian ::
    "world \<Rightarrow> json \<Rightarrow> json \<Rightarrow> json \<Rightarrow> json \<Rightarrow> request list \<times> (py_exception + json)" where
  "search_smithsonian w query rows start online_media =
     (case and_then (get_api_key w) (\<lambda>api_key. search_params api_key query rows start online_media) of
        Inl e \<Rightarrow> ([], Inl e)
      | Inr params \<Rightarrow>
          (let req = \<lparr>req_url = SMITHSONIAN_API_BASE @ ''/search'', req_params = params\<rparr>
           in ([req], http_get w req)))"

definition get_item_details :: "world \<Rightarrow> json \<Rightarrow> request list \<times> (py_exception + json)" where
  "get_item_details w item_id =
     (case and_then (get_api_key w) (\<lambda>api_key.
           let params = [(''api_key'', JStr api_key)]
           in and_then (py_str (py_runtime w) item_id) (\<lambda>item_id_text.
              Inr \<lparr>req_url = SMITHSONIAN_API_BASE @ ''/content/'' @ item_id_text,
                   req_params = params\<rparr>)) of
        Inl e \<Rightarrow> ([], Inl e)
      | Inr req \<Rightarrow> ([req], http_get w req))"

definition get_category_terms :: "world \<Rightarrow> json \<Rightarrow> json \<Rightarrow> request list \<times> (py_exception + json)" where
  "get_category_terms w category starts_with =
     (case and_then (get_api_key w) (\<lambda>api_key.
           let params = [(''api_key'', JStr api_key), (''category'', category)];
               params = (if truthy starts_with then dict_set params ''starts_with'' starts_with
                         else params)
           in and_then (py_str (py_runtime w) category) (\<lambda>category_text.
              Inr \<lparr>req_url = SMITHSONIAN_API_BASE @ ''/terms/'' @ category_text,
                   req_params = params\<rparr>)) of
        Inl e \<Rightarrow> ([], Inl e)
      | Inr req \<Rightarrow> ([req], http_get w req))"

section \<open>Response formatters\<close>

text \<open>
  Each formatter builds the list \<^verbatim>\<open>result_lines\<close> and joins it with newlines. The source
  only ever appends to the list, so each block of a formatter is modelled by the lines it
  appends, and a \<^verbatim>\<open>for\<close> statement by \<open>append_each\<close>, which runs the body on the items in
  order and appends what each gives. Where the source tests \<^verbatim>\<open>isinstance(v, dict)\<close>
  before it reads \<open>v\<close>, the model matches on \<open>JDict\<close>; where it calls \<^verbatim>\<open>.get\<close> with no
  test, the model calls \<open>py_get\<close>, which raises on a value that is no dict. An exception
  ends the formatter at the statement that raises it.
\<close>

fun append_each ::
    "('a \<Rightarrow> py_exception + string list) \<Rightarrow> 'a list \<Rightarrow> string list \<Rightarrow> py_exception + string list" where
  "append_each body [] result_lines = Inr result_lines"
| "append_each body (x # xs) result_lines =
     and_then (body x) (\<lambda>appended. append_each body xs (result_lines @ appended))"

text \<open>\<^verbatim>\<open>if v: result_lines.append(f"{prefix}{v}")\<close>.\<close>

definition line_if :: "runtime \<Rightarrow> string \<Rightarrow> json \<Rightarrow> py_exception + string list" where
  "line_if rt prefix v =
     (if truthy v then and_then (py_str rt v) (\<lambda>v_text. Inr [prefix @ v_text]) else Inr [])"

definition newline :: string where
  "newline = [CHR 0x0A]"

text \<open>The bullet U+2022 of the f-strings, in UTF-8.\<close>

definition bullet :: string where
  "bullet = [CHR 0xE2, CHR 0x80, CHR 0xA2]"

subsection \<open>\<^verbatim>\<open>format_search_results\<close>\<close>

text \<open>The body of \<^verbatim>\<open>for item in response.get("rows", [])\<close>.\<close>

definition search_item :: "runtime \<Rightarrow> json \<Rightarrow> py_exception + string list" where
  "search_item rt item =
     and_then (py_get item ''title'' (JStr ''Untitled'')) (\<lambda>title.
     and_then (py_get item ''id'' (JStr ''Unknown ID'')) (\<lambda>item_id.
     and_then (py_get item ''unitCode'' (JStr [])) (\<lambda>unit_code.
     and_then (py_str rt title) (\<lambda>title_text.
     and_then (py_str rt item_id) (\<lambda>item_id_text.
     and_then (line_if rt ''  Unit: '' unit_code) (\<lambda>unit_lines.
     and_then (py_get item ''content'' (JDict [])) (\<lambda>content.
     and_then
       (case content of
          JDict c \<Rightarrow>
            (case dict_get c ''descriptiveNonRepeating'' (JDict []) of
               JDict desc \<Rightarrow> line_if rt ''  Link: '' (dict_get desc ''record_link'' JNull)
             | _ \<Rightarrow> Inr [])
        | _ \<Rightarrow> Inr []) (\<lambda>link_lines.
     and_then (py_get item ''content'' (JDict [])) (\<lambda>content2.
     and_then (py_get content2 ''descriptiveNonRepeating'' (JDict [])) (\<lambda>desc2.
     and_then (py_get desc2 ''online_media'' (JDict [])) (\<lambda>online_media.
     and_then
       (if truthy online_media then
          (case online_media of
             JDict om \<Rightarrow>
               (let media_count = dict_get om ''mediaCount'' (JInt 0)
                in and_then (py_gt_int media_count 0) (\<lambda>positive.
                     if positive
                     then and_then (py_str rt media_count) (\<lambda>media_count_text.
                            Inr [''  Online Media: '' @ media_count_text @ '' items available''])
                     else Inr []))
           | _ \<Rightarrow> Inr [])
        else Inr []) (\<lambda>media_lines.
     Inr ([bullet @ '' '' @ title_text, ''  ID: '' @ item_id_text] @ unit_lines @ link_lines @
          media_lines @ [[]])))))))))))))"

definition format_search_results_lines :: "runtime \<Rightarrow> json \<Rightarrow> py_exception + string list" where
  "format_search_results_lines rt data =
     and_then (py_get data ''response'' (JDict [])) (\<lambda>response.
     and_then (py_get response ''rowCount'' (JInt 0)) (\<lambda>rows_returned.
     and_then (py_get response ''rowCount'' (JInt 0)) (\<lambda>total_rows.
     and_then (py_str rt total_rows) (\<lambda>total_rows_text.
     and_then (py_str rt rows_returned) (\<lambda>rows_returned_text.
     let result_lines = [''Found '' @ total_rows_text @ '' results'',
                         ''Showing '' @ rows_returned_text @ '' items:'',
                         []]
     in
     and_then (py_get response ''rows'' (JList [])) (\<lambda>rows.
     and_then (py_iter rows) (\<lambda>items.
     append_each (search_item rt) items result_lines)))))))"

definition format_search_results :: "runtime \<Rightarrow> json \<Rightarrow> py_exception + string" where
  "format_search_results rt data =
     and_then (format_search_results_lines rt data) (\<lambda>result_lines.
       Inr (join newline result_lines))"

subsection \<open>\<^verbatim>\<open>format_item_details\<close>\<close>

text \<open>
  The body of \<^verbatim>\<open>for media in online_media.get("media", [])[:5]\<close>: a line for an item
  that is a dict, nothing for any other.
\<close>

definition media_entry :: "runtime \<Rightarrow> json \<Rightarrow> py_exception + string list" where
  "media_entry rt media =
     (case media of
        JDict m \<Rightarrow>
          (let media_type = dict_get m ''type'' (JStr ''Unknown'');
               media_url = dict_get m ''content'' (JStr [])
           in and_then (py_str rt media_type) (\<lambda>media_type_text.
              and_then (py_str rt media_url) (\<lambda>media_url_text.
              Inr [''  - '' @ media_type_text @ '': '' @ media_url_text])))
      | _ \<Rightarrow> Inr [])"

text \<open>The block under \<^verbatim>\<open>if online_media and isinstance(online_media, dict)\<close>.\<close>

definition item_online_media :: "runtime \<Rightarrow> json \<Rightarrow> py_exception + string list" where
  "item_online_media rt online_media =
     (if truthy online_media then
        (case online_media of
           JDict om \<Rightarrow>
             (let media_count = dict_get om ''mediaCount'' (JInt 0)
              in and_then (py_str rt media_count) (\<lambda>media_count_text.
                 and_then (py_slice_to rt 5 (dict_get om ''media'' (JList []))) (\<lambda>first5.
                 and_then (py_iter first5) (\<lambda>medias.
                 append_each (media_entry rt) medias
                   [[], ''Online Media:'', ''  Total Items: '' @ media_count_text]))))
         | _ \<Rightarrow> Inr [])
      else Inr [])"

text \<open>The block under \<^verbatim>\<open>if isinstance(desc, dict)\<close>.\<close>

definition item_descriptive :: "runtime \<Rightarrow> json \<Rightarrow> py_exception + string list" where
  "item_descriptive rt desc =
     (case desc of
        JDict d \<Rightarrow>
          and_then (line_if rt ''Record Link: '' (dict_get d ''record_link'' JNull)) (\<lambda>link_lines.
          and_then (line_if rt ''Data Source: '' (dict_get d ''data_source'' JNull)) (\<lambda>source_lines.
          and_then (item_online_media rt (dict_get d ''online_media'' (JDict []))) (\<lambda>media_lines.
          Inr (link_lines @ source_lines @ media_lines))))
      | _ \<Rightarrow> Inr [])"

text \<open>
  The body of \<^verbatim>\<open>for item in values[:3]\<close>: a line for an item that is a dict, nothing
  for any other.
\<close>

definition freetext_entry :: "runtime \<Rightarrow> json \<Rightarrow> py_exception + string list" where
  "freetext_entry rt item =
     (case item of
        JDict i \<Rightarrow>
          (let label = dict_get i ''label'' (JStr []);
               content_text = dict_get i ''content'' (JStr [])
           in if truthy label
              then and_then (py_str rt label) (\<lambda>label_text.
                   and_then (py_str rt content_text) (\<lambda>content_text_text.
                   Inr [''    '' @ label_text @ '': '' @ content_text_text]))
              else and_then (py_str rt content_text) (\<lambda>content_text_text.
                   Inr [''    '' @ content_text_text]))
      | _ \<Rightarrow> Inr [])"

text \<open>
  The body of \<^verbatim>\<open>for key, values in freetext.items()\<close>: for a field that is a non-empty
  list, its heading and the lines of its first three items.
\<close>

definition freetext_field :: "runtime \<Rightarrow> string \<times> json \<Rightarrow> py_exception + string list" where
  "freetext_field rt kv =
     (case snd kv of
        JList vs \<Rightarrow>
          (if vs \<noteq> [] then append_each (freetext_entry rt) (take 3 vs) [''  '' @ fst kv @ '':'']
           else Inr [])
      | _ \<Rightarrow> Inr [])"

text \<open>The block from \<^verbatim>\<open>freetext = content.get("freetext", {})\<close> on.\<close>

definition item_freetext :: "runtime \<Rightarrow> json \<Rightarrow> py_exception + string list" where
  "item_freetext rt freetext =
     (case freetext of
        JDict ft \<Rightarrow> append_each (freetext_field rt) ft [[], ''Additional Information:'']
      | _ \<Rightarrow> Inr [])"

text \<open>The lines from \<^verbatim>\<open>title = response.get("title", "Untitled")\<close> to the blank line.\<close>

definition item_basic_info :: "runtime \<Rightarrow> json \<Rightarrow> py_exception + string list" where
  "item_basic_info rt response =
     and_then (py_get response ''title'' (JStr ''Untitled'')) (\<lambda>title.
     and_then (py_get response ''id'' (JStr ''Unknown'')) (\<lambda>item_id.
     and_then (py_get response ''unitCode'' (JStr [])) (\<lambda>unit_code.
     and_then (py_str rt title) (\<lambda>title_text.
     and_then (py_str rt item_id) (\<lambda>item_id_text.
     and_then (line_if rt ''Unit: '' unit_code) (\<lambda>unit_lines.
     Inr ([''Title: '' @ title_text, ''ID: '' @ item_id_text] @ unit_lines @ [[]])))))))"

definition format_item_details_lines :: "runtime \<Rightarrow> json \<Rightarrow> py_exception + string list" where
  "format_item_details_lines rt data =
     and_then (py_get data ''response'' (JDict [])) (\<lambda>response.
     and_then (item_basic_info rt response) (\<lambda>basic_lines.
     and_then (py_get response ''content'' (JDict [])) (\<lambda>content.
     and_then
       (case content of
          JDict c \<Rightarrow>
            and_then (item_descriptive rt (dict_get c ''descriptiveNonRepeating'' (JDict [])))
              (\<lambda>descriptive_lines.
            and_then (item_freetext rt (dict_get c ''freetext'' (JDict []))) (\<lambda>freetext_lines.
            Inr (descriptive_lines @ freetext_lines)))
        | _ \<Rightarrow> Inr []) (\<lambda>content_lines.
     Inr ([''Item Details:'', []] @ basic_lines @ content_lines)))))"

definition format_item_details :: "runtime \<Rightarrow> json \<Rightarrow> py_exception + string" where
  "format_item_details rt data =
     and_then (format_item_details_lines rt data) (\<lambda>result_lines.
       Inr (join newline result_lines))"

subsection \<open>The terms formatter inside \<^verbatim>\<open>call_tool\<close>\<close>

text \<open>
  The third formatter is the code of the \<^verbatim>\<open>get_category_terms\<close> branch of \<^verbatim>\<open>call_tool\<close>
  from \<^verbatim>\<open>response = data.get("response", {})\<close> to the join.
\<close>

definition term_line :: "runtime \<Rightarrow> json \<Rightarrow> py_exception + string list" where
  "term_line rt t = and_then (py_str rt t) (\<lambda>t_text. Inr [bullet @ '' '' @ t_text])"

definition format_category_terms_lines :: "runtime \<Rightarrow> json \<Rightarrow> json \<Rightarrow> py_exception + string list" where
  "format_category_terms_lines rt category data =
     and_then (py_get data ''response'' (JDict [])) (\<lambda>response.
     and_then (py_get response ''terms'' (JList [])) (\<lambda>terms.
     and_then (py_str rt category) (\<lambda>category_text.
     let result_lines = [''Available terms for '' @ quoted category_text @ '':'', []]
     in and_then (py_iter terms) (\<lambda>ts. append_each (term_line rt) ts result_lines))))"

definition format_category_terms :: "runtime \<Rightarrow> json \<Rightarrow> json \<Rightarrow> py_exception + string" where
  "format_category_terms rt category data =
     and_then (format_category_terms_lines rt category data) (\<lambda>result_lines.
       Inr (join newline result_lines))"

section \<open>Dispatcher\<close>

text \<open>
  \<^verbatim>\<open>list_tools\<close>: of each declared tool, its name and the \<^verbatim>\<open>required\<close> list of its
  input schema.
\<close>

definition list_tools :: "(string \<times> string list) list" where
  "list_tools =
     [(''search_collection'', [''query'']),
      (''get_item'', [''item_id'']),
      (''get_category_terms'', [''category''])]"

datatype text_content = TextContent (tc_type: string) (tc_text: string)

text \<open>
  The \<^verbatim>\<open>try\<close> block of \<^verbatim>\<open>call_tool\<close>: the requests sent, and the list returned or the
  exception raised.
\<close>

definition call_tool_body ::
    "world \<Rightarrow> string \<Rightarrow> json \<Rightarrow> request list \<times> (py_exception + text_content list)" where
  "call_tool_body w name arguments =
     (if name = ''search_collection'' then
        (case and_then (py_get arguments ''query'' JNull) (\<lambda>query.
              and_then (py_get arguments ''rows'' (JInt 10)) (\<lambda>rows.
              and_then (py_get arguments ''start'' (JInt 0)) (\<lambda>start.
              and_then (py_get arguments ''online_media_only'' (JBool False)) (\<lambda>online_media_only.
              Inr (query, rows, start, online_media_only))))) of
           Inl e \<Rightarrow> ([], Inl e)
         | Inr (query, rows, start, online_media_only) \<Rightarrow>
             if \<not> truthy query
             then ([], Inr [TextContent ''text'' ''Error: query parameter is required''])
             else
               (case search_smithsonian w query rows start online_media_only of
                  (sent, Inl e) \<Rightarrow> (sent, Inl e)
                | (sent, Inr data) \<Rightarrow>
                    (sent, and_then (format_search_results (py_runtime w) data) (\<lambda>formatted_result.
                             Inr [TextContent ''text'' formatted_result]))))
      else if name = ''get_item'' then
        (case py_get arguments ''item_id'' JNull of
           Inl e \<Rightarrow> ([], Inl e)
         | Inr item_id \<Rightarrow>
             if \<not> truthy item_id
             then ([], Inr [TextContent ''text'' ''Error: item_id parameter is required''])
             else
               (case get_item_details w item_id of
                  (sent, Inl e) \<Rightarrow> (sent, Inl e)
                | (sent, Inr data) \<Rightarrow>
                    (sent, and_then (format_item_details (py_runtime w) data) (\<lambda>formatted_result.
                             Inr [TextContent ''text'' formatted_result]))))
      else if name = ''get_category_terms'' then
        (case and_then (py_get arguments ''category'' JNull) (\<lambda>category.
              and_then (py_get arguments ''starts_with'' (JStr [])) (\<lambda>starts_with.
              Inr (category, starts_with))) of
           Inl e \<Rightarrow> ([], Inl e)
         | Inr (category, starts_with) \<Rightarrow>
             if \<not> truthy category
             then ([], Inr [TextContent ''text'' ''Error: category parameter is required''])
             else
               (case get_category_terms w category starts_with of
                  (sent, Inl e) \<Rightarrow> (sent, Inl e)
                | (sent, Inr data) \<Rightarrow>
                    (sent, and_then (format_category_terms (py_runtime w) category data) (\<lambda>result_text.
                             Inr [TextContent ''text'' result_text]))))
      else ([], Inr [TextContent ''text'' (''Error: Unknown tool '' @ quoted name)]))"

text \<open>
  \<^verbatim>\<open>call_tool\<close> with its handler \<^verbatim>\<open>except Exception as e\<close>, which turns the exception
  into one text block.
\<close>

definition call_tool :: "world \<Rightarrow> string \<Rightarrow> json \<Rightarrow> request list \<times> text_content list" where
  "call_tool w name arguments =
     (case call_tool_body w name arguments of
        (sent, Inl e) \<Rightarrow> (sent, [TextContent ''text'' (''Error: '' @ exc_str e)])
      | (sent, Inr result) \<Rightarrow> (sent, result))"

section \<open>Properties\<close>

subsection \<open>Sequencing and iteration\<close>

lemma and_then_Inr: "and_then (Inr x) f = f x"
  by (simp add: and_then_def)

lemma and_then_Inl: "and_then (Inl e) f = Inl e"
  by (simp add: and_then_def)

lemma and_then_assoc: "and_then (and_then r f) g = and_then r (\<lambda>x. and_then (f x) g)"
  by (cases r) (simp_all add: and_then_def)

lemma append_each_append:
  "append_each body xs result_lines =
     and_then (append_each body xs []) (\<lambda>appended. Inr (result_lines @ appended))"
proof (induction xs arbitrary: result_lines)
  case Nil
  show ?case by (simp add: and_then_Inr)
next
  case (Cons x xs)
  show ?case
  proof (cases "body x")
    case (Inl e)
    then show ?thesis by (simp add: and_then_Inl)
  next
    case (Inr a)
    have "append_each body xs (result_lines @ a) =
        and_then (append_each body xs []) (\<lambda>appended. Inr ((result_lines @ a) @ appended))"
      by (rule Cons.IH)
    moreover have "append_each body xs a =
        and_then (append_each body xs []) (\<lambda>appended. Inr (a @ appended))"
      by (rule Cons.IH)
    ultimately show ?thesis
      using Inr by (simp add: and_then_Inr and_then_assoc)
  qed
qed

lemma append_each_Cons:
  "append_each body (x # xs) [] =
     and_then (body x) (\<lambda>first. and_then (append_each body xs []) (\<lambda>others. Inr (first @ others)))"
proof (cases "body x")
  case (Inl e)
  then show ?thesis by (simp add: and_then_Inl)
next
  case (Inr first)
  have "append_each body xs first =
      and_then (append_each body xs []) (\<lambda>others. Inr (first @ others))"
    by (rule append_each_append)
  with Inr show ?thesis by (simp add: and_then_Inr)
qed

lemma media_entry_length:
  assumes "media_entry rt m = Inr ls"
  shows "length ls = (if is_dict m then 1 else 0)"
  using assms
  by (cases m) (auto simp: media_entry_def and_then_def Let_def split: sum.splits)

lemma media_entries_length:
  assumes "append_each (media_entry rt) ms [] = Inr entries"
  shows "length entries = length (filter is_dict ms)"
  using assms
proof (induction ms arbitrary: entries)
  case Nil
  then show ?case by simp
next
  case (Cons m ms)
  from Cons.prems [unfolded append_each_Cons]
  obtain first others where first: "media_entry rt m = Inr first"
    and others: "append_each (media_entry rt) ms [] = Inr others"
    and entries: "entries = first @ others"
    by (auto simp: and_then_def split: sum.splits)
  from media_entry_length [OF first] Cons.IH [OF others] entries
  show ?case by simp
qed

lemma freetext_entry_length:
  assumes "freetext_entry rt item = Inr ls"
  shows "length ls \<le> 1"
  using assms
  by (cases item) (auto simp: freetext_entry_def and_then_def Let_def split: sum.splits if_splits)

lemma freetext_entries_length:
  assumes "append_each (freetext_entry rt) items [] = Inr entries"
  shows "length entries \<le> length items"
  using assms
proof (induction items arbitrary: entries)
  case Nil
  then show ?case by simp
next
  case (Cons item items)
  from Cons.prems [unfolded append_each_Cons]
  obtain first others where first: "freetext_entry rt item = Inr first"
    and others: "append_each (freetext_entry rt) items [] = Inr others"
    and entries: "entries = first @ others"
    by (auto simp: and_then_def split: sum.splits)
  from freetext_entry_length [OF first] Cons.IH [OF others] entries
  show ?case by simp
qed

lemma freetext_field_entries:
  assumes "vs \<noteq> []" and "freetext_field rt (key, JList vs) = Inr ls"
  shows "\<exists>entries. append_each (freetext_entry rt) (take 3 vs) [] = Inr entries \<and>
           ls = (''  '' @ key @ '':'') # entries \<and> length entries \<le> 3"
proof -
  from assms have "and_then (append_each (freetext_entry rt) (take 3 vs) [])
      (\<lambda>entries. Inr ([''  '' @ key @ '':''] @ entries)) = Inr ls"
    by (simp add: freetext_field_def append_each_append [of _ _ "[_]"])
  then obtain entries where e: "append_each (freetext_entry rt) (take 3 vs) [] = Inr entries"
    and ls: "ls = (''  '' @ key @ '':'') # entries"
    by (auto simp: and_then_def split: sum.splits)
  from freetext_entries_length [OF e] have "length entries \<le> 3" by simp
  with e ls show ?thesis by blast
qed

lemma item_online_media_list:
  assumes "om \<noteq> []" and "dict_get om ''media'' (JList []) = JList media"
  shows "item_online_media rt (JDict om) =
           and_then (py_str rt (dict_get om ''mediaCount'' (JInt 0))) (\<lambda>total.
           and_then (append_each (media_entry rt) (take 5 media) []) (\<lambda>entries.
           Inr ([[], ''Online Media:'', ''  Total Items: '' @ total] @ entries)))"
  using assms
  by (simp add: item_online_media_def Let_def and_then_Inr
        append_each_append [of _ _ "[] # _"])

lemma item_freetext_dict:
  "item_freetext rt (JDict ft) =
     and_then (append_each (freetext_field rt) ft []) (\<lambda>fields.
       Inr ([[], ''Additional Information:''] @ fields))"
  by (simp add: item_freetext_def append_each_append [of _ _ "[] # _"])

lemma format_item_details_content:
  assumes "map_of data ''response'' = Some (JDict response)"
    and "map_of response ''content'' = Some (JDict content)"
  shows "format_item_details rt (JDict data) =
           and_then (item_basic_info rt (JDict response)) (\<lambda>basic.
           and_then (item_descriptive rt (dict_get content ''descriptiveNonRepeating'' (JDict [])))
             (\<lambda>descriptive.
           and_then (item_freetext rt (dict_get content ''freetext'' (JDict []))) (\<lambda>free.
           Inr (join newline ([''Item Details:'', []] @ basic @ descriptive @ free)))))"
  using assms
  by (simp add: format_item_details_def format_item_details_lines_def dict_get_def and_then_def
        split: sum.splits)

lemma format_search_results_response:
  assumes "dict_get d ''response'' (JDict []) = JDict r"
  shows "format_search_results rt (JDict d) =
           and_then (py_str rt (dict_get r ''rowCount'' (JInt 0))) (\<lambda>n.
           and_then (py_iter (dict_get r ''rows'' (JList []))) (\<lambda>items.
           and_then (append_each (search_item rt) items []) (\<lambda>listed.
           Inr (join newline
                  ([''Found '' @ n @ '' results'', ''Showing '' @ n @ '' items:'', []] @ listed)))))"
  using assms
  by (simp add: format_search_results_def format_search_results_lines_def and_then_def Let_def
        append_each_append [of _ _ "_ # _"] split: sum.splits)

lemma format_search_results_returns:
  assumes "format_search_results rt data = Inr text"
  shows "\<exists>d r n listed. data = JDict d \<and> dict_get d ''response'' (JDict []) = JDict r \<and>
           py_str rt (dict_get r ''rowCount'' (JInt 0)) = Inr n \<and>
           text = join newline
                    ([''Found '' @ n @ '' results'', ''Showing '' @ n @ '' items:'', []] @ listed)"
proof -
  from assms obtain d where d: "data = JDict d"
    by (cases data)
       (simp_all add: format_search_results_def format_search_results_lines_def and_then_def)
  from assms d obtain r where r: "dict_get d ''response'' (JDict []) = JDict r"
    by (cases "dict_get d ''response'' (JDict [])")
       (simp_all add: format_search_results_def format_search_results_lines_def and_then_def)
  from assms [unfolded d format_search_results_response [OF r]] d r
  show ?thesis
    by (auto simp: and_then_def split: sum.splits)
qed

subsection \<open>Formatters on input of the wrong shape\<close>

text \<open>Absent fields alone are harmless: on the empty object every default applies.\<close>

lemma formatters_on_empty_object:
  "format_search_results plain_runtime (JDict []) =
     Inr (join newline [''Found 0 results'', ''Showing 0 items:'', []])
   \<and> format_item_details plain_runtime (JDict []) =
     Inr (join newline [''Item Details:'', [], ''Title: Untitled'', ''ID: Unknown'', [],
                        [], ''Additional Information:''])
   \<and> format_category_terms plain_runtime (JStr ''topic'') (JDict []) =
     Inr (join newline [''Available terms for '' @ quoted ''topic'' @ '':'', []])"
  by code_simp

text \<open>
  C1. The claim: on every JSON input, also one where an expected field is absent or has
  the wrong type, each of the three formatters returns a string and raises nothing. The
  code does not keep it. \<^verbatim>\<open>format_search_results\<close> tests \<^verbatim>\<open>isinstance(content, dict)\<close>
  before it reads the record link, and four lines on reads
  \<^verbatim>\<open>item.get("content", {}).get("descriptiveNonRepeating", {})\<close> with no test: a row whose
  \<^verbatim>\<open>content\<close> is a string raises \<^verbatim>\<open>AttributeError\<close>. \<^verbatim>\<open>format_item_details\<close> slices
  \<^verbatim>\<open>online_media.get("media", [])\<close> untested: a \<^verbatim>\<open>media\<close> that is \<^verbatim>\<open>null\<close> raises
  \<^verbatim>\<open>TypeError\<close>. The terms formatter calls \<^verbatim>\<open>.get\<close> on \<^verbatim>\<open>data.get("response", {})\<close>
  untested: a \<^verbatim>\<open>response\<close> that is \<^verbatim>\<open>null\<close> raises \<^verbatim>\<open>AttributeError\<close>.
\<close>

theorem formatters_raise_on_wrong_shape:
  "format_search_results plain_runtime
     (JDict [(''response'', JDict [(''rows'', JList [JDict [(''content'', JStr ''n/a'')]])])]) =
     Inl (Exc AttributeError (quoted ''str'' @ '' object has no attribute '' @ quoted ''get''))
   \<and> format_item_details plain_runtime
     (JDict [(''response'', JDict [(''content'', JDict [(''descriptiveNonRepeating'',
        JDict [(''online_media'', JDict [(''mediaCount'', JInt 0), (''media'', JNull)])])])])]) =
     Inl (Exc TypeError (quoted ''NoneType'' @ '' object is not subscriptable''))
   \<and> format_category_terms plain_runtime (JStr ''topic'') (JDict [(''response'', JNull)]) =
     Inl (Exc AttributeError (quoted ''NoneType'' @ '' object has no attribute '' @ quoted ''get''))"
  by code_simp

subsection \<open>Dispatcher\<close>

lemma call_tool_body_single_block:
  assumes "call_tool_body w name arguments = (sent, Inr result)"
  shows "\<exists>t. result = [TextContent ''text'' t]"
  using assms unfolding call_tool_body_def and_then_def
  by (auto split: if_splits sum.splits prod.splits)

lemma call_tool_of_body_error:
  assumes "call_tool_body w name arguments = (sent, Inl e)"
  shows "call_tool w name arguments = (sent, [TextContent ''text'' (''Error: '' @ exc_str e)])"
  using assms by (simp add: call_tool_def)

lemma call_tool_single_block: "\<exists>t. snd (call_tool w name arguments) = [TextContent ''text'' t]"
proof (cases "call_tool_body w name arguments")
  case (Pair sent outcome)
  show ?thesis
  proof (cases outcome)
    case (Inl e)
    with Pair show ?thesis by (simp add: call_tool_def)
  next
    case (Inr result)
    with Pair call_tool_body_single_block [of w name arguments sent result]
    show ?thesis by (auto simp: call_tool_def)
  qed
qed

lemma search_branch_error:
  assumes "truthy (dict_get args ''query'' JNull)"
    and "search_smithsonian w (dict_get args ''query'' JNull) (dict_get args ''rows'' (JInt 10))
           (dict_get args ''start'' (JInt 0)) (dict_get args ''online_media_only'' (JBool False)) =
         (sent, Inl e)"
  shows "call_tool_body w ''search_collection'' (JDict args) = (sent, Inl e)"
  using assms by (simp add: call_tool_body_def and_then_def)

lemma get_item_branch_error:
  assumes "truthy (dict_get args ''item_id'' JNull)"
    and "get_item_details w (dict_get args ''item_id'' JNull) = (sent, Inl e)"
  shows "call_tool_body w ''get_item'' (JDict args) = (sent, Inl e)"
  using assms by (simp add: call_tool_body_def and_then_def)

lemma get_category_terms_branch_error:
  assumes "truthy (dict_get args ''category'' JNull)"
    and "get_category_terms w (dict_get args ''category'' JNull)
           (dict_get args ''starts_with'' (JStr [])) = (sent, Inl e)"
  shows "call_tool_body w ''get_category_terms'' (JDict args) = (sent, Inl e)"
  using assms by (simp add: call_tool_body_def and_then_def)

lemma call_tool_not_truthy:
  assumes "(name, [param]) \<in> set list_tools"
    and "\<not> truthy (dict_get arguments param JNull)"
  shows "call_tool w name (JDict arguments) =
           ([], [TextContent ''text'' (''Error: '' @ param @ '' parameter is required'')])"
  using assms by (auto simp: call_tool_def call_tool_body_def list_tools_def and_then_def)

text \<open>
  C2. Whatever the tool name and the arguments, \<^verbatim>\<open>call_tool\<close> returns exactly one text
  block; an exception raised inside its \<^verbatim>\<open>try\<close> block becomes the block
  \<^verbatim>\<open>Error: {message}\<close>, and so does, in each of the three branches, an exception raised by
  the adapter (a missing credential, a failure of the upstream request).
\<close>

theorem call_tool_catches_errors:
  "(\<exists>t. snd (call_tool w name arguments) = [TextContent ''text'' t]) \<and>
   (\<forall>sent e. call_tool_body w name arguments = (sent, Inl e) \<longrightarrow>
      call_tool w name arguments = (sent, [TextContent ''text'' (''Error: '' @ exc_str e)])) \<and>
   (\<forall>args sent e.
      truthy (dict_get args ''query'' JNull) \<and>
      search_smithsonian w (dict_get args ''query'' JNull) (dict_get args ''rows'' (JInt 10))
        (dict_get args ''start'' (JInt 0)) (dict_get args ''online_media_only'' (JBool False)) =
      (sent, Inl e) \<longrightarrow>
      call_tool w ''search_collection'' (JDict args) =
        (sent, [TextContent ''text'' (''Error: '' @ exc_str e)])) \<and>
   (\<forall>args sent e.
      truthy (dict_get args ''item_id'' JNull) \<and>
      get_item_details w (dict_get args ''item_id'' JNull) = (sent, Inl e) \<longrightarrow>
      call_tool w ''get_item'' (JDict args) =
        (sent, [TextContent ''text'' (''Error: '' @ exc_str e)])) \<and>
   (\<forall>args sent e.
      truthy (dict_get args ''category'' JNull) \<and>
      get_category_terms w (dict_get args ''category'' JNull)
        (dict_get args ''starts_with'' (JStr [])) = (sent, Inl e) \<longrightarrow>
      call_tool w ''get_category_terms'' (JDict args) =
        (sent, [TextContent ''text'' (''Error: '' @ exc_str e)]))"
  using call_tool_single_block call_tool_of_body_error search_branch_error
    get_item_branch_error get_category_terms_branch_error
  by blast

theorem call_tool_catches_errors_witness:
  "truthy (dict_get [(''item_id'', JStr ''X'')] ''item_id'' JNull) \<and>
   get_item_details
     \<lparr>environ_at_import = Map.empty, environ = [''SMITHSONIAN_API_KEY'' \<mapsto> ''abc123''],
       http_get = (\<lambda>r. Inl (Exc HTTPStatusError ''404 Not Found'')),
       py_runtime = plain_runtime\<rparr>
     (dict_get [(''item_id'', JStr ''X'')] ''item_id'' JNull) =
     ([\<lparr>req_url = ''https://api.si.edu/openaccess/api/v1.0/content/X'',
        req_params = [(''api_key'', JStr ''abc123'')]\<rparr>],
      Inl (Exc HTTPStatusError ''404 Not Found'')) \<and>
   call_tool
     \<lparr>environ_at_import = Map.empty, environ = [''SMITHSONIAN_API_KEY'' \<mapsto> ''abc123''],
       http_get = (\<lambda>r. Inl (Exc HTTPStatusError ''404 Not Found'')),
       py_runtime = plain_runtime\<rparr>
     ''get_item'' (JDict [(''item_id'', JStr ''X'')]) =
     ([\<lparr>req_url = ''https://api.si.edu/openaccess/api/v1.0/content/X'',
        req_params = [(''api_key'', JStr ''abc123'')]\<rparr>],
      [TextContent ''text'' ''Error: 404 Not Found''])"
proof -
  let ?w = "\<lparr>environ_at_import = Map.empty, environ = [''SMITHSONIAN_API_KEY'' \<mapsto> ''abc123''],
       http_get = (\<lambda>r. Inl (Exc HTTPStatusError ''404 Not Found'')),
       py_runtime = plain_runtime\<rparr>"
  let ?sent = "[\<lparr>req_url = ''https://api.si.edu/openaccess/api/v1.0/content/X'',
        req_params = [(''api_key'', JStr ''abc123'')]\<rparr>]"
  have h1: "truthy (dict_get [(''item_id'', JStr ''X'')] ''item_id'' JNull)"
    by (simp add: dict_get_def)
  have h2: "get_item_details ?w (dict_get [(''item_id'', JStr ''X'')] ''item_id'' JNull) =
      (?sent, Inl (Exc HTTPStatusError ''404 Not Found''))"
    by (simp add: get_item_details_def get_api_key_def DEFAULT_API_KEY_def getenv_def
          dict_get_def SMITHSONIAN_API_BASE_def and_then_def)
  have "call_tool ?w ''get_item'' (JDict [(''item_id'', JStr ''X'')]) =
      (?sent, [TextContent ''text'' (''Error: '' @ exc_str (Exc HTTPStatusError ''404 Not Found''))])"
    using call_tool_catches_errors [of ?w "''get_item''" "JDict [(''item_id'', JStr ''X'')]",
        THEN conjunct2, THEN conjunct2, THEN conjunct2, THEN conjunct1, rule_format,
        of "[(''item_id'', JStr ''X'')]" ?sent "Exc HTTPStatusError ''404 Not Found''"]
      h1 h2
    by blast
  with h1 h2 show ?thesis by simp
qed

text \<open>
  C4. For a declared tool whose required argument is absent from the argument map,
  \<^verbatim>\<open>call_tool\<close> returns the single text block \<^verbatim>\<open>Error: {param} parameter is required\<close>
  and sends no request.
\<close>

theorem call_tool_missing_required:
  assumes "(name, [param]) \<in> set list_tools"
    and "map_of arguments param = None"
  shows "call_tool w name (JDict arguments) =
           ([], [TextContent ''text'' (''Error: '' @ param @ '' parameter is required'')])"
  using assms(1) by (rule call_tool_not_truthy) (simp add: dict_get_def assms(2))

theorem call_tool_missing_required_witness:
  "(''search_collection'', [''query'']) \<in> set list_tools \<and>
   map_of ([] :: (string \<times> json) list) ''query'' = None \<and>
   call_tool \<lparr>environ_at_import = Map.empty, environ = Map.empty, http_get = (\<lambda>r. Inr JNull), py_runtime = plain_runtime\<rparr>
     ''search_collection'' (JDict []) =
     ([], [TextContent ''text'' ''Error: query parameter is required''])"
proof -
  have h1: "(''search_collection'', [''query'']) \<in> set list_tools"
    by (simp add: list_tools_def)
  have h2: "map_of ([] :: (string \<times> json) list) ''query'' = None"
    by simp
  from h1 h2 call_tool_missing_required [OF h1 h2] show ?thesis by simp
qed

text \<open>
  C5. For a name that is none of the three declared tool names, and any arguments,
  \<^verbatim>\<open>call_tool\<close> returns the single text block \<^verbatim>\<open>Error: Unknown tool '{name}'\<close>.
\<close>

theorem call_tool_unknown:
  assumes "name \<notin> fst ` set list_tools"
  shows "call_tool w name arguments =
           ([], [TextContent ''text'' (''Error: Unknown tool '' @ quoted name)])"
  using assms by (simp add: call_tool_def call_tool_body_def list_tools_def)

theorem call_tool_unknown_witness:
  "''anything_else'' \<notin> fst ` set list_tools \<and>
   call_tool \<lparr>environ_at_import = Map.empty, environ = Map.empty, http_get = (\<lambda>r. Inr JNull), py_runtime = plain_runtime\<rparr>
     ''anything_else'' (JDict []) =
     ([], [TextContent ''text'' (''Error: Unknown tool '' @ quoted ''anything_else'')])"
proof -
  have h: "''anything_else'' \<notin> fst ` set list_tools"
    by (simp add: list_tools_def)
  from h call_tool_unknown [OF h] show ?thesis by simp
qed

text \<open>
  C10. For a declared tool whose required argument is in the argument map with a falsy
  value (the empty string, \<^verbatim>\<open>None\<close>, zero, an empty list), \<^verbatim>\<open>call_tool\<close> answers as for
  an absent argument: the block \<^verbatim>\<open>Error: {param} parameter is required\<close>, and no request.
\<close>

theorem call_tool_falsy_required:
  assumes "(name, [param]) \<in> set list_tools"
    and "map_of arguments param = Some v"
    and "\<not> truthy v"
  shows "call_tool w name (JDict arguments) =
           ([], [TextContent ''text'' (''Error: '' @ param @ '' parameter is required'')])"
  using assms(1) by (rule call_tool_not_truthy) (simp add: dict_get_def assms(2,3))

theorem call_tool_falsy_required_witness:
  "(''get_item'', [''item_id'']) \<in> set list_tools \<and>
   map_of [(''item_id'', JStr [])] ''item_id'' = Some (JStr []) \<and>
   \<not> truthy (JStr []) \<and>
   call_tool \<lparr>environ_at_import = Map.empty, environ = Map.empty, http_get = (\<lambda>r. Inr JNull), py_runtime = plain_runtime\<rparr>
     ''get_item'' (JDict [(''item_id'', JStr [])]) =
     ([], [TextContent ''text'' ''Error: item_id parameter is required''])"
proof -
  have h1: "(''get_item'', [''item_id'']) \<in> set list_tools"
    by (simp add: list_tools_def)
  have h2: "map_of [(''item_id'', JStr [])] ''item_id'' = Some (JStr [])"
    by simp
  have h3: "\<not> truthy (JStr [])"
    by simp
  from h1 h2 h3 call_tool_falsy_required [OF h1 h2 h3] show ?thesis by simp
qed

subsection \<open>Credential and search parameters\<close>

text \<open>
  C6. The claim: \<^verbatim>\<open>get_api_key\<close> fails exactly when \<^verbatim>\<open>SMITHSONIAN_API_KEY\<close> is unset or
  empty, and returns the value otherwise. The code has a fallback the claim leaves out:
  the module reads the variable once when it is imported (\<^verbatim>\<open>DEFAULT_API_KEY\<close>) and
  \<^verbatim>\<open>get_api_key\<close> passes that value to \<^verbatim>\<open>os.getenv\<close> as the default. What holds: the
  value is the variable's at the call when it is set then, and else the variable's at
  import; \<^verbatim>\<open>get_api_key\<close> raises the error whose message says where to get a key exactly
  when that value is missing or empty, and returns it otherwise.
\<close>

theorem get_api_key_resolves:
  "get_api_key w =
     (case environ w ''SMITHSONIAN_API_KEY'' of
        Some v \<Rightarrow> if v = [] then Inl (Exc ValueError api_key_required) else Inr v
      | None \<Rightarrow>
          (case environ_at_import w ''SMITHSONIAN_API_KEY'' of
             Some v \<Rightarrow> if v = [] then Inl (Exc ValueError api_key_required) else Inr v
           | None \<Rightarrow> Inl (Exc ValueError api_key_required)))
   \<and> api_key_required =
       ''SMITHSONIAN_API_KEY environment variable is required. Get your free API key at https://api.data.gov/signup/''"
  by (simp add: get_api_key_def DEFAULT_API_KEY_def getenv_def api_key_required_def Let_def
        split: option.splits)

theorem get_api_key_resolves_witness:
  "get_api_key \<lparr>environ_at_import = Map.empty,
                 environ = [''SMITHSONIAN_API_KEY'' \<mapsto> ''abc123''],
                 http_get = (\<lambda>r. Inr JNull), py_runtime = plain_runtime\<rparr> = Inr ''abc123'' \<and>
   get_api_key \<lparr>environ_at_import = Map.empty,
                 environ = [''SMITHSONIAN_API_KEY'' \<mapsto> []],
                 http_get = (\<lambda>r. Inr JNull), py_runtime = plain_runtime\<rparr> =
     Inl (Exc ValueError api_key_required) \<and>
   get_api_key \<lparr>environ_at_import = Map.empty, environ = Map.empty,
                 http_get = (\<lambda>r. Inr JNull), py_runtime = plain_runtime\<rparr> =
     Inl (Exc ValueError api_key_required)"
  using
    get_api_key_resolves [of "\<lparr>environ_at_import = Map.empty,
                 environ = [''SMITHSONIAN_API_KEY'' \<mapsto> ''abc123''],
                 http_get = (\<lambda>r. Inr JNull), py_runtime = plain_runtime\<rparr>"]
    get_api_key_resolves [of "\<lparr>environ_at_import = Map.empty,
                 environ = [''SMITHSONIAN_API_KEY'' \<mapsto> []],
                 http_get = (\<lambda>r. Inr JNull), py_runtime = plain_runtime\<rparr>"]
    get_api_key_resolves [of "\<lparr>environ_at_import = Map.empty, environ = Map.empty,
                 http_get = (\<lambda>r. Inr JNull), py_runtime = plain_runtime\<rparr>"]
  by simp

text \<open>
  The claim fails where the variable was set at import and is unset at the call: the key
  read at import is returned.
\<close>

theorem get_api_key_unset_counterexample:
  "environ \<lparr>environ_at_import = [''SMITHSONIAN_API_KEY'' \<mapsto> ''importkey''],
             environ = Map.empty,
             http_get = (\<lambda>r. Inr JNull), py_runtime = plain_runtime\<rparr>
     ''SMITHSONIAN_API_KEY'' = None \<and>
   get_api_key \<lparr>environ_at_import = [''SMITHSONIAN_API_KEY'' \<mapsto> ''importkey''],
                 environ = Map.empty,
                 http_get = (\<lambda>r. Inr JNull), py_runtime = plain_runtime\<rparr> = Inr ''importkey''"
  by (simp add: get_api_key_def DEFAULT_API_KEY_def getenv_def)

text \<open>
  C3. The request \<^verbatim>\<open>search_smithsonian\<close> sends has the query parameters \<^verbatim>\<open>api_key\<close>,
  \<^verbatim>\<open>q\<close> = the query, \<^verbatim>\<open>rows\<close> = min(rows, 1000) and \<^verbatim>\<open>start\<close>, and
  \<^verbatim>\<open>online_media_type=Images\<close> exactly when the online-media flag is true; without a key
  it sends nothing.
\<close>

theorem search_request_params:
  "fst (search_smithsonian w query (JInt rows) start online_media) =
     (case get_api_key w of
        Inl e \<Rightarrow> []
      | Inr api_key \<Rightarrow>
          [\<lparr>req_url = SMITHSONIAN_API_BASE @ ''/search'',
            req_params =
              [(''api_key'', JStr api_key), (''q'', query), (''rows'', JInt (min rows 1000)),
               (''start'', start)] @
              (if truthy online_media then [(''online_media_type'', JStr ''Images'')] else [])\<rparr>])"
  by (simp add: search_smithsonian_def search_params_def py_min_int_def and_then_def dict_set_def
        Let_def min_def split: sum.splits)

theorem search_request_params_witness:
  "fst (search_smithsonian
          \<lparr>environ_at_import = Map.empty, environ = [''SMITHSONIAN_API_KEY'' \<mapsto> ''abc123''],
            http_get = (\<lambda>r. Inr JNull), py_runtime = plain_runtime\<rparr>
          (JStr ''apollo 11'') (JInt 5000) (JInt 0) (JBool True)) =
     [\<lparr>req_url = ''https://api.si.edu/openaccess/api/v1.0/search'',
       req_params = [(''api_key'', JStr ''abc123''), (''q'', JStr ''apollo 11''),
                     (''rows'', JInt 1000), (''start'', JInt 0),
                     (''online_media_type'', JStr ''Images'')]\<rparr>] \<and>
   fst (search_smithsonian
          \<lparr>environ_at_import = Map.empty, environ = [''SMITHSONIAN_API_KEY'' \<mapsto> ''abc123''],
            http_get = (\<lambda>r. Inr JNull), py_runtime = plain_runtime\<rparr>
          (JStr ''apollo 11'') (JInt 5) (JInt 20) (JBool False)) =
     [\<lparr>req_url = ''https://api.si.edu/openaccess/api/v1.0/search'',
       req_params = [(''api_key'', JStr ''abc123''), (''q'', JStr ''apollo 11''),
                     (''rows'', JInt 5), (''start'', JInt 20)]\<rparr>]"
  using
    search_request_params [of "\<lparr>environ_at_import = Map.empty,
            environ = [''SMITHSONIAN_API_KEY'' \<mapsto> ''abc123''],
            http_get = (\<lambda>r. Inr JNull), py_runtime = plain_runtime\<rparr>" "JStr ''apollo 11''" 5000 "JInt 0" "JBool True"]
    search_request_params [of "\<lparr>environ_at_import = Map.empty,
            environ = [''SMITHSONIAN_API_KEY'' \<mapsto> ''abc123''],
            http_get = (\<lambda>r. Inr JNull), py_runtime = plain_runtime\<rparr>" "JStr ''apollo 11''" 5 "JInt 20" "JBool False"]
  by (simp add: get_api_key_def DEFAULT_API_KEY_def getenv_def SMITHSONIAN_API_BASE_def)

subsection \<open>Item details\<close>

text \<open>
  C7. The claim: with online media present, \<^verbatim>\<open>format_item_details\<close> writes the total
  count and the first five media entries at most, five lines for a list of eight. The
  loop has the guard \<^verbatim>\<open>if isinstance(media, dict)\<close>: an entry that is no object gets no
  line. What holds, when the online media is a non-empty object whose \<^verbatim>\<open>media\<close> is a list
  or absent: the text \<^verbatim>\<open>format_item_details\<close> returns is the title block, the record link
  and data source, the heading with the total count, one line (type and URL) for each
  object among the first five entries, and the free-text block; so there are as many
  media lines as objects among the first five entries, five at most. The text is lost
  only where \<^verbatim>\<open>str\<close> of a value raises.
\<close>

theorem format_item_details_media:
  assumes "map_of data ''response'' = Some (JDict response)"
    and "map_of response ''content'' = Some (JDict content)"
    and "map_of content ''descriptiveNonRepeating'' = Some (JDict desc)"
    and "map_of desc ''online_media'' = Some (JDict online_media)"
    and "online_media \<noteq> []"
    and "dict_get online_media ''media'' (JList []) = JList media"
  shows "format_item_details rt (JDict data) =
           and_then (item_basic_info rt (JDict response)) (\<lambda>basic.
           and_then (line_if rt ''Record Link: '' (dict_get desc ''record_link'' JNull)) (\<lambda>link.
           and_then (line_if rt ''Data Source: '' (dict_get desc ''data_source'' JNull)) (\<lambda>source.
           and_then (py_str rt (dict_get online_media ''mediaCount'' (JInt 0))) (\<lambda>total.
           and_then (append_each (media_entry rt) (take 5 media) []) (\<lambda>entries.
           and_then (item_freetext rt (dict_get content ''freetext'' (JDict []))) (\<lambda>free.
           Inr (join newline
                  ([''Item Details:'', []] @ basic @ link @ source @
                   [[], ''Online Media:'', ''  Total Items: '' @ total] @ entries @ free))))))))
         \<and> (\<forall>entries. append_each (media_entry rt) (take 5 media) [] = Inr entries \<longrightarrow>
               length entries = length (filter is_dict (take 5 media)) \<and> length entries \<le> 5)
         \<and> (\<forall>m. media_entry rt (JDict m) =
               and_then (py_str rt (dict_get m ''type'' (JStr ''Unknown''))) (\<lambda>media_type.
               and_then (py_str rt (dict_get m ''content'' (JStr []))) (\<lambda>media_url.
               Inr [''  - '' @ media_type @ '': '' @ media_url])))"
proof (intro conjI allI impI)
  have desc: "item_descriptive rt (dict_get content ''descriptiveNonRepeating'' (JDict [])) =
      and_then (line_if rt ''Record Link: '' (dict_get desc ''record_link'' JNull)) (\<lambda>link.
      and_then (line_if rt ''Data Source: '' (dict_get desc ''data_source'' JNull)) (\<lambda>source.
      and_then (py_str rt (dict_get online_media ''mediaCount'' (JInt 0))) (\<lambda>total.
      and_then (append_each (media_entry rt) (take 5 media) []) (\<lambda>entries.
      Inr (link @ source @ [[], ''Online Media:'', ''  Total Items: '' @ total] @ entries)))))"
    using assms(3,4) item_online_media_list [OF assms(5,6), of rt]
    by (simp add: item_descriptive_def dict_get_def and_then_def split: sum.splits)
  show "format_item_details rt (JDict data) =
           and_then (item_basic_info rt (JDict response)) (\<lambda>basic.
           and_then (line_if rt ''Record Link: '' (dict_get desc ''record_link'' JNull)) (\<lambda>link.
           and_then (line_if rt ''Data Source: '' (dict_get desc ''data_source'' JNull)) (\<lambda>source.
           and_then (py_str rt (dict_get online_media ''mediaCount'' (JInt 0))) (\<lambda>total.
           and_then (append_each (media_entry rt) (take 5 media) []) (\<lambda>entries.
           and_then (item_freetext rt (dict_get content ''freetext'' (JDict []))) (\<lambda>free.
           Inr (join newline
                  ([''Item Details:'', []] @ basic @ link @ source @
                   [[], ''Online Media:'', ''  Total Items: '' @ total] @ entries @ free))))))))"
    unfolding format_item_details_content [OF assms(1,2)] desc
    by (simp add: and_then_def split: sum.splits)
next
  fix entries
  assume "append_each (media_entry rt) (take 5 media) [] = Inr entries"
  then have "length entries = length (filter is_dict (take 5 media))"
    by (rule media_entries_length)
  moreover have "length (filter is_dict (take 5 media)) \<le> length (take 5 media)"
    by (rule length_filter_le)
  ultimately show "length entries = length (filter is_dict (take 5 media))"
    and "length entries \<le> 5"
    by simp_all
next
  fix m
  show "media_entry rt (JDict m) =
      and_then (py_str rt (dict_get m ''type'' (JStr ''Unknown''))) (\<lambda>media_type.
      and_then (py_str rt (dict_get m ''content'' (JStr []))) (\<lambda>media_url.
      Inr [''  - '' @ media_type @ '': '' @ media_url]))"
    by (simp add: media_entry_def Let_def)
qed

theorem format_item_details_media_witness:
  "format_item_details plain_runtime
     (JDict [(''response'', JDict [(''title'', JStr ''Eagle''), (''content'', JDict
        [(''descriptiveNonRepeating'', JDict [(''online_media'', JDict
           [(''mediaCount'', JInt 8),
            (''media'', JList (map (\<lambda>u. JDict [(''type'', JStr ''Images''), (''content'', JStr u)])
               [''u1'', ''u2'', ''u3'', ''u4'', ''u5'', ''u6'', ''u7'', ''u8'']))])])])])]) =
     Inr (join newline
       [''Item Details:'', [], ''Title: Eagle'', ''ID: Unknown'', [],
        [], ''Online Media:'', ''  Total Items: 8'',
        ''  - Images: u1'', ''  - Images: u2'', ''  - Images: u3'', ''  - Images: u4'',
        ''  - Images: u5'',
        [], ''Additional Information:'']) \<and>
   length [''  - Images: u1'', ''  - Images: u2'', ''  - Images: u3'', ''  - Images: u4'',
           ''  - Images: u5''] =
   length (filter is_dict (take 5
     (map (\<lambda>u. JDict [(''type'', JStr ''Images''), (''content'', JStr u)])
        [''u1'', ''u2'', ''u3'', ''u4'', ''u5'', ''u6'', ''u7'', ''u8''])))"
proof -
  let ?media = "map (\<lambda>u. JDict [(''type'', JStr ''Images''), (''content'', JStr u)])
        [''u1'', ''u2'', ''u3'', ''u4'', ''u5'', ''u6'', ''u7'', ''u8'']"
  let ?om = "[(''mediaCount'', JInt 8), (''media'', JList ?media)]"
  let ?desc = "[(''online_media'', JDict ?om)]"
  let ?content = "[(''descriptiveNonRepeating'', JDict ?desc)]"
  let ?response = "[(''title'', JStr ''Eagle''), (''content'', JDict ?content)]"
  let ?data = "[(''response'', JDict ?response)]"
  have h1: "map_of ?data ''response'' = Some (JDict ?response)" by simp
  have h2: "map_of ?response ''content'' = Some (JDict ?content)" by simp
  have h3: "map_of ?content ''descriptiveNonRepeating'' = Some (JDict ?desc)" by simp
  have h4: "map_of ?desc ''online_media'' = Some (JDict ?om)" by simp
  have h5: "?om \<noteq> []" by simp
  have h6: "dict_get ?om ''media'' (JList []) = JList ?media" by (simp add: dict_get_def)
  note t = format_item_details_media [OF h1 h2 h3 h4 h5 h6, of plain_runtime]
  have out: "format_item_details plain_runtime (JDict ?data) =
     Inr (join newline
       [''Item Details:'', [], ''Title: Eagle'', ''ID: Unknown'', [],
        [], ''Online Media:'', ''  Total Items: 8'',
        ''  - Images: u1'', ''  - Images: u2'', ''  - Images: u3'', ''  - Images: u4'',
        ''  - Images: u5'',
        [], ''Additional Information:''])"
    unfolding t [THEN conjunct1] by code_simp
  have entries: "append_each (media_entry plain_runtime) (take 5 ?media) [] =
      Inr [''  - Images: u1'', ''  - Images: u2'', ''  - Images: u3'', ''  - Images: u4'',
           ''  - Images: u5'']"
    by code_simp
  from t entries have "length [''  - Images: u1'', ''  - Images: u2'', ''  - Images: u3'',
      ''  - Images: u4'', ''  - Images: u5''] = length (filter is_dict (take 5 ?media))"
    by blast
  with out show ?thesis by blast
qed

text \<open>
  The claim fails on a list of eight entries whose first is a bare string: four media
  lines.
\<close>

theorem format_item_details_media_counterexample:
  "format_item_details plain_runtime
     (JDict [(''response'', JDict [(''title'', JStr ''Eagle''), (''content'', JDict
        [(''descriptiveNonRepeating'', JDict [(''online_media'', JDict
           [(''mediaCount'', JInt 8),
            (''media'', JList
               [JStr ''u1'',
                JDict [(''type'', JStr ''Images''), (''content'', JStr ''u2'')],
                JDict [(''type'', JStr ''Images''), (''content'', JStr ''u3'')],
                JDict [(''type'', JStr ''Images''), (''content'', JStr ''u4'')],
                JDict [(''type'', JStr ''Images''), (''content'', JStr ''u5'')],
                JDict [(''type'', JStr ''Images''), (''content'', JStr ''u6'')],
                JDict [(''type'', JStr ''Images''), (''content'', JStr ''u7'')],
                JDict [(''type'', JStr ''Images''), (''content'', JStr ''u8'')]])])])])])]) =
     Inr (join newline
       [''Item Details:'', [], ''Title: Eagle'', ''ID: Unknown'', [],
        [], ''Online Media:'', ''  Total Items: 8'',
        ''  - Images: u2'', ''  - Images: u3'', ''  - Images: u4'', ''  - Images: u5'',
        [], ''Additional Information:''])"
  by code_simp

text \<open>
  With free text present (an object under \<^verbatim>\<open>content.freetext\<close>), the text ends with the
  block \<^verbatim>\<open>Additional Information:\<close>, provided the blocks before it raise nothing; a field
  that is a non-empty list has its heading and three entries at most.
\<close>

lemma format_item_details_freetext_block:
  assumes "map_of data ''response'' = Some (JDict response)"
    and "map_of response ''content'' = Some (JDict content)"
    and "map_of content ''freetext'' = Some (JDict freetext)"
  shows "format_item_details rt (JDict data) =
           and_then (item_basic_info rt (JDict response)) (\<lambda>basic.
           and_then (item_descriptive rt (dict_get content ''descriptiveNonRepeating'' (JDict [])))
             (\<lambda>descriptive.
           and_then (append_each (freetext_field rt) freetext []) (\<lambda>fields.
           Inr (join newline
                  ([''Item Details:'', []] @ basic @ descriptive @
                   [[], ''Additional Information:''] @ fields)))))"
  unfolding format_item_details_content [OF assms(1,2)]
  using assms(3)
  by (simp add: dict_get_def item_freetext_dict and_then_def split: sum.splits)

text \<open>
  C8. The claim: for every item response with free-text fields, \<^verbatim>\<open>format_item_details\<close>
  writes the block \<^verbatim>\<open>Additional Information:\<close>, three entries a field at most. The code
  does not keep it for every response: the online-media block comes first and slices
  \<^verbatim>\<open>online_media.get("media", [])\<close> untested, so with \<^verbatim>\<open>media\<close> \<^verbatim>\<open>null\<close> the formatter
  raises \<^verbatim>\<open>TypeError\<close> and the free text, though present, is never written. The same
  response with an empty \<^verbatim>\<open>media\<close> list gets the block.
\<close>

theorem format_item_details_freetext_lost:
  "format_item_details plain_runtime
     (JDict [(''response'', JDict [(''id'', JStr ''edanmdm-1''), (''content'', JDict
        [(''descriptiveNonRepeating'', JDict [(''online_media'', JDict
           [(''mediaCount'', JInt 0), (''media'', JNull)])]),
         (''freetext'', JDict
           [(''notes'', JList [JDict [(''label'', JStr ''Summary''), (''content'', JStr ''first'')],
                               JDict [(''content'', JStr ''second'')]])])])])]) =
     Inl (Exc TypeError (quoted ''NoneType'' @ '' object is not subscriptable''))
   \<and> format_item_details plain_runtime
     (JDict [(''response'', JDict [(''id'', JStr ''edanmdm-1''), (''content'', JDict
        [(''descriptiveNonRepeating'', JDict [(''online_media'', JDict
           [(''mediaCount'', JInt 0), (''media'', JList [])])]),
         (''freetext'', JDict
           [(''notes'', JList [JDict [(''label'', JStr ''Summary''), (''content'', JStr ''first'')],
                               JDict [(''content'', JStr ''second'')]])])])])]) =
     Inr (join newline
       [''Item Details:'', [], ''Title: Untitled'', ''ID: edanmdm-1'', [],
        [], ''Online Media:'', ''  Total Items: 0'',
        [], ''Additional Information:'', ''  notes:'', ''    Summary: first'', ''    second''])"
  by code_simp

subsection \<open>Search results\<close>

text \<open>
  C9. \<^verbatim>\<open>format_search_results\<close> writes both header lines, \<^verbatim>\<open>Found N results\<close> and
  \<^verbatim>\<open>Showing N items:\<close>, with the one text \<open>N\<close> of the response's \<^verbatim>\<open>rowCount\<close>: every
  text it returns begins with them, and for a response object its outcome is that header
  over the lines of the rows, or the exception that \<^verbatim>\<open>str\<close>, the iteration or a row
  raises. The number need not be the number of rows listed: with a \<^verbatim>\<open>rowCount\<close> of 3 and
  one row, the text says 3 and lists one item.
\<close>

theorem format_search_results_counts:
  "(\<forall>data text. format_search_results rt data = Inr text \<longrightarrow>
      (\<exists>d r n listed. data = JDict d \<and> dict_get d ''response'' (JDict []) = JDict r \<and>
         py_str rt (dict_get r ''rowCount'' (JInt 0)) = Inr n \<and>
         text = join newline
                  ([''Found '' @ n @ '' results'', ''Showing '' @ n @ '' items:'', []] @ listed))) \<and>
   (\<forall>d r. dict_get d ''response'' (JDict []) = JDict r \<longrightarrow>
      format_search_results rt (JDict d) =
        and_then (py_str rt (dict_get r ''rowCount'' (JInt 0))) (\<lambda>n.
        and_then (py_iter (dict_get r ''rows'' (JList []))) (\<lambda>items.
        and_then (append_each (search_item rt) items []) (\<lambda>listed.
        Inr (join newline
               ([''Found '' @ n @ '' results'', ''Showing '' @ n @ '' items:'', []] @ listed)))))) \<and>
   format_search_results plain_runtime
     (JDict [(''response'', JDict [(''rowCount'', JInt 3),
                                   (''rows'', JList [JDict [(''title'', JStr ''Apollo'')]])])]) =
     Inr (join newline
            [''Found 3 results'', ''Showing 3 items:'', [],
             bullet @ '' Apollo'', ''  ID: Unknown ID'', []])"
proof -
  have "format_search_results plain_runtime
     (JDict [(''response'', JDict [(''rowCount'', JInt 3),
                                   (''rows'', JList [JDict [(''title'', JStr ''Apollo'')]])])]) =
     Inr (join newline
            [''Found 3 results'', ''Showing 3 items:'', [],
             bullet @ '' Apollo'', ''  ID: Unknown ID'', []])"
    by code_simp
  then show ?thesis
    using format_search_results_returns format_search_results_response by blast
qed

theorem format_search_results_counts_witness:
  "format_search_results plain_runtime
     (JDict [(''response'', JDict [(''rowCount'', JInt 3),
                                   (''rows'', JList [JDict [(''title'', JStr ''Apollo'')]])])]) =
     Inr (join newline
            [''Found 3 results'', ''Showing 3 items:'', [],
             bullet @ '' Apollo'', ''  ID: Unknown ID'', []]) \<and>
   (\<exists>d r n listed.
      JDict [(''response'', JDict [(''rowCount'', JInt 3),
                                   (''rows'', JList [JDict [(''title'', JStr ''Apollo'')]])])] = JDict d \<and>
      dict_get d ''response'' (JDict []) = JDict r \<and>
      py_str plain_runtime (dict_get r ''rowCount'' (JInt 0)) = Inr n \<and>
      join newline [''Found 3 results'', ''Showing 3 items:'', [],
                    bullet @ '' Apollo'', ''  ID: Unknown ID'', []] =
      join newline ([''Found '' @ n @ '' results'', ''Showing '' @ n @ '' items:'', []] @ listed))"
  using format_search_results_counts [of plain_runtime] by blast

end
